theory Spec2Isabelle
  imports Complex_Main
begin

section \<open>The scroll visibility controller of \<^verbatim>\<open>src/js/mobile-scroll-ui.js\<close>\<close>

text \<open>
  The file holds the controller that shows and hides the table-of-contents container and the
  "back to top" button. The variant with the auto-hide timer (lines 93 to 238 of the source
  file) is the one embedded here. Every closure variable of the \<^verbatim>\<open>DOMContentLoaded\<close>
  handler is a field of the record \<open>controller\<close>; what the handler reads from the window is
  a field of the record \<open>browser\<close>, which \<open>controller\<close> extends. Each inner function of
  the handler is a function from controller to controller.

  Numbers: scroll offsets, the viewport width and the viewport height are whole CSS pixels
  (\<open>int\<close>). A timer is a pair of its id and the delay it was registered with.
\<close>

subsection \<open>The class list of an element\<close>

type_synonym classList = "string list"

text \<open>\<^verbatim>\<open>const className = 'scroll-direction-hidden'\<close>\<close>

definition className :: string where
  "className = ''scroll-direction-hidden''"

text \<open>\<^verbatim>\<open>element.classList.toggle(token, force)\<close>: with \<open>force\<close> true the token is added
  unless it is there, with \<open>force\<close> false it is removed.\<close>

definition toggle :: "string \<Rightarrow> bool \<Rightarrow> classList \<Rightarrow> classList" where
  "toggle c force cl = (if force then (if c \<in> set cl then cl else cl @ [c]) else removeAll c cl)"

subsection \<open>Window, document and closure variables\<close>

datatype listener = ScrollL | TouchstartL | ClickL | ResizeL | ToggleL

record browser =
  scrollY :: int
  innerHeight :: int
  viewportWidth :: int
  hasMatchMedia :: bool
  timers :: "(nat \<times> nat) list"
  nextTimerId :: nat
  frameCallbacks :: nat
  listeners :: "listener list"

text \<open>What the three lookups of the handler return: \<open>None\<close> is \<^verbatim>\<open>null\<close>. An element is
  its class list; the disclosure element is its \<^verbatim>\<open>open\<close> attribute.\<close>

record document =
  toc_container :: "classList option"
  back_to_top :: "classList option"
  toc_details :: "bool option"

record controller = browser +
  tocContainer :: "classList option"
  backToTopButton :: "classList option"
  tocDetails :: "bool option"
  lastScrollY :: int
  rafPending :: bool
  enableHideAfterPixels :: int
  autoHideTimeoutId :: "nat option"

definition minDelta :: int where
  "minDelta = 8"

definition autoHideDelayMs :: nat where
  "autoHideDelayMs = 5000"

text \<open>\<^verbatim>\<open>Math.max(200, Math.floor(window.innerHeight * 0.6))\<close>, the product taken
  exactly: for a height in whole pixels it is a multiple of one fifth, and the rounding of the
  double product does not move it across an integer.\<close>

definition hideAfter :: "int \<Rightarrow> int" where
  "hideAfter h = max 200 \<lfloor>real_of_int h * 0.6\<rfloor>"

text \<open>\<^verbatim>\<open>isMobileViewport\<close>: \<^verbatim>\<open>matchMedia\<close> is a function and the query
  \<^verbatim>\<open>(max-width: 899px)\<close> matches.\<close>

definition isMobileViewport :: "'a browser_scheme \<Rightarrow> bool" where
  "isMobileViewport w = (hasMatchMedia w \<and> viewportWidth w \<le> 899)"

subsection \<open>The timer functions\<close>

text \<open>\<^verbatim>\<open>window.clearTimeout(id)\<close> on the list of pending timers.\<close>

definition clearTimeout :: "nat \<Rightarrow> (nat \<times> nat) list \<Rightarrow> (nat \<times> nat) list" where
  "clearTimeout t ts = filter (\<lambda>e. fst e \<noteq> t) ts"

definition clearAutoHideTimer :: "controller \<Rightarrow> controller" where
  "clearAutoHideTimer s =
     (case autoHideTimeoutId s of
        None \<Rightarrow> s
      | Some t \<Rightarrow> s\<lparr>timers := clearTimeout t (timers s), autoHideTimeoutId := None\<rparr>)"

text \<open>\<^verbatim>\<open>tocDetails && tocDetails.open\<close>\<close>

definition detailsOpen :: "controller \<Rightarrow> bool" where
  "detailsOpen s = (tocDetails s = Some True)"

definition scheduleAutoHide :: "controller \<Rightarrow> controller" where
  "scheduleAutoHide s0 =
     (let s = clearAutoHideTimer s0 in
      if \<not> isMobileViewport s then s
      else if scrollY s < enableHideAfterPixels s then s
      else if detailsOpen s then s
      else s\<lparr>timers := timers s @ [(nextTimerId s, autoHideDelayMs)],
             nextTimerId := Suc (nextTimerId s),
             autoHideTimeoutId := Some (nextTimerId s)\<rparr>)"

definition setScrollDirectionHidden :: "bool \<Rightarrow> controller \<Rightarrow> controller" where
  "setScrollDirectionHidden isHidden s0 =
     (let s1 = (case tocContainer s0 of
                  None \<Rightarrow> s0
                | Some cl \<Rightarrow>
                    (let shouldHideToc = (isHidden \<and> \<not> detailsOpen s0)
                     in s0\<lparr>tocContainer := Some (toggle className shouldHideToc cl)\<rparr>));
          s2 = (case backToTopButton s1 of
                  None \<Rightarrow> s1
                | Some cl \<Rightarrow> s1\<lparr>backToTopButton := Some (toggle className isHidden cl)\<rparr>)
      in if \<not> isHidden then scheduleAutoHide s2 else clearAutoHideTimer s2)"

text \<open>The arrow function handed to \<^verbatim>\<open>window.setTimeout\<close> in \<^verbatim>\<open>scheduleAutoHide\<close>.\<close>

definition autoHideCallback :: "controller \<Rightarrow> controller" where
  "autoHideCallback s =
     (if \<not> isMobileViewport s then s
      else if scrollY s < enableHideAfterPixels s then s
      else if detailsOpen s then s
      else setScrollDirectionHidden True s)"

subsection \<open>The evaluation routine and the event handlers\<close>

definition update :: "controller \<Rightarrow> controller" where
  "update s0 =
     (let s = s0\<lparr>rafPending := False\<rparr> in
      if \<not> isMobileViewport s then
        (let s' = setScrollDirectionHidden False s in s'\<lparr>lastScrollY := scrollY s'\<rparr>)
      else
        (let currentScrollY = scrollY s;
             delta = currentScrollY - lastScrollY s
         in if \<bar>delta\<bar> < minDelta then s
            else
              (let isScrollingDown = (delta > 0);
                   s' = (if currentScrollY < enableHideAfterPixels s
                         then setScrollDirectionHidden False s
                         else setScrollDirectionHidden isScrollingDown s)
               in s'\<lparr>lastScrollY := currentScrollY\<rparr>)))"

definition onScroll :: "controller \<Rightarrow> controller" where
  "onScroll s =
     (if rafPending s then s
      else s\<lparr>rafPending := True, frameCallbacks := Suc (frameCallbacks s)\<rparr>)"

definition onResize :: "controller \<Rightarrow> controller" where
  "onResize s =
     update (s\<lparr>enableHideAfterPixels := hideAfter (innerHeight s), lastScrollY := scrollY s\<rparr>)"

definition onToggle :: "controller \<Rightarrow> controller" where
  "onToggle s =
     (if detailsOpen s then
        (let s1 = setScrollDirectionHidden False s;
             s2 = s1\<lparr>lastScrollY := scrollY s1\<rparr>
         in clearAutoHideTimer s2)
      else scheduleAutoHide s)"

subsection \<open>Wiring at \<^verbatim>\<open>DOMContentLoaded\<close>\<close>

datatype wiring = NotWired browser | Wired controller

definition DOMContentLoaded :: "document \<Rightarrow> browser \<Rightarrow> wiring" where
  "DOMContentLoaded d w =
     (let toc = toc_container d;
          btt = back_to_top d;
          det = (case toc of None \<Rightarrow> None | Some _ \<Rightarrow> toc_details d)
      in if toc = None \<and> btt = None then NotWired w
         else
           (let s0 = browser.extend w
                       (controller.fields toc btt det (scrollY w) False
                          (hideAfter (innerHeight w)) None);
                s1 = s0\<lparr>listeners := listeners s0 @ [ScrollL, TouchstartL, ClickL, ResizeL]\<rparr>;
                s2 = update s1
            in Wired (if det \<noteq> None then s2\<lparr>listeners := listeners s2 @ [ToggleL]\<rparr> else s2)))"

subsection \<open>Events\<close>

text \<open>
  The first three events are changes the page makes by itself: the user scrolls, the viewport
  changes, the \<^verbatim>\<open>open\<close> attribute of the disclosure changes. The others run a handler,
  when the listener is registered: \<open>Frame\<close> runs one queued animation-frame callback,
  \<open>Timeout t\<close> fires the pending timer \<open>t\<close>, which leaves the list of pending timers before
  its callback runs. The browser queues the toggle event when the attribute changes and
  delivers it later, so \<open>SetOpen\<close> and \<open>Toggle\<close> are two events. The events may come in any
  order: what holds after every sequence of them holds in the browser.
\<close>

datatype event =
    ScrollTo int
  | Viewport int int
  | SetOpen bool
  | Scroll
  | Frame
  | Touchstart
  | Click
  | Resize
  | Toggle
  | Timeout nat

fun step :: "event \<Rightarrow> controller \<Rightarrow> controller" where
  "step (ScrollTo y) s = s\<lparr>scrollY := y\<rparr>"
| "step (Viewport w h) s = s\<lparr>viewportWidth := w, innerHeight := h\<rparr>"
| "step (SetOpen b) s = (case tocDetails s of None \<Rightarrow> s | Some _ \<Rightarrow> s\<lparr>tocDetails := Some b\<rparr>)"
| "step Scroll s = (if ScrollL \<in> set (listeners s) then onScroll s else s)"
| "step Frame s =
     (if 0 < frameCallbacks s then update (s\<lparr>frameCallbacks := frameCallbacks s - 1\<rparr>) else s)"
| "step Touchstart s = (if TouchstartL \<in> set (listeners s) then scheduleAutoHide s else s)"
| "step Click s = (if ClickL \<in> set (listeners s) then scheduleAutoHide s else s)"
| "step Resize s = (if ResizeL \<in> set (listeners s) then onResize s else s)"
| "step Toggle s = (if ToggleL \<in> set (listeners s) then onToggle s else s)"
| "step (Timeout t) s =
     (if t \<in> fst ` set (timers s)
      then autoHideCallback (s\<lparr>timers := clearTimeout t (timers s)\<rparr>)
      else s)"

fun run :: "event list \<Rightarrow> controller \<Rightarrow> controller" where
  "run [] s = s"
| "run (e # es) s = run es (step e s)"

text \<open>Whether an element carries the class; an absent element carries nothing.\<close>

definition hasHidden :: "classList option \<Rightarrow> bool" where
  "hasHidden el = (case el of None \<Rightarrow> False | Some cl \<Rightarrow> className \<in> set cl)"

subsection \<open>Predicates of the statements\<close>

text \<open>The three conditions of the auto-hide timer: the viewport is mobile, the scroll
  position has reached the threshold, the disclosure is not expanded.\<close>

definition autoHideAllowed :: "controller \<Rightarrow> bool" where
  "autoHideAllowed s =
     (isMobileViewport s \<and> enableHideAfterPixels s \<le> scrollY s \<and> \<not> detailsOpen s)"

text \<open>At most one timer is pending, it is the one the controller holds the id of, and its
  id is older than the next id the browser gives out.\<close>

definition oneTimer :: "controller \<Rightarrow> bool" where
  "oneTimer s =
     (length (timers s) \<le> 1 \<and>
      list_all (\<lambda>e. autoHideTimeoutId s = Some (fst e) \<and> fst e < nextTimerId s) (timers s))"

subsection \<open>Concrete pages\<close>

text \<open>A phone (500 by 500, threshold 300) and a desktop window (1200 by 800, threshold 480),
  each at the top of a page that has both elements and a collapsed disclosure.\<close>

definition phone :: browser where
  "phone = \<lparr>scrollY = 0, innerHeight = 500, viewportWidth = 500, hasMatchMedia = True,
             timers = [], nextTimerId = 1, frameCallbacks = 0, listeners = []\<rparr>"

definition desktop :: browser where
  "desktop = \<lparr>scrollY = 0, innerHeight = 800, viewportWidth = 1200, hasMatchMedia = True,
               timers = [], nextTimerId = 1, frameCallbacks = 0, listeners = []\<rparr>"

definition fullPage :: document where
  "fullPage = \<lparr>toc_container = Some [], back_to_top = Some [], toc_details = Some False\<rparr>"

definition emptyPage :: document where
  "emptyPage = \<lparr>toc_container = None, back_to_top = None, toc_details = None\<rparr>"

definition buttonOnly :: document where
  "buttonOnly = \<lparr>toc_container = None, back_to_top = Some [], toc_details = None\<rparr>"

definition wiredPhone :: controller where
  "wiredPhone =
     \<lparr>scrollY = 0, innerHeight = 500, viewportWidth = 500, hasMatchMedia = True,
      timers = [], nextTimerId = 1, frameCallbacks = 0,
      listeners = [ScrollL, TouchstartL, ClickL, ResizeL, ToggleL],
      tocContainer = Some [], backToTopButton = Some [], tocDetails = Some False,
      lastScrollY = 0, rafPending = False, enableHideAfterPixels = 300,
      autoHideTimeoutId = None\<rparr>"

definition wiredDesktop :: controller where
  "wiredDesktop =
     \<lparr>scrollY = 0, innerHeight = 800, viewportWidth = 1200, hasMatchMedia = True,
      timers = [], nextTimerId = 1, frameCallbacks = 0,
      listeners = [ScrollL, TouchstartL, ClickL, ResizeL, ToggleL],
      tocContainer = Some [], backToTopButton = Some [], tocDetails = Some False,
      lastScrollY = 0, rafPending = False, enableHideAfterPixels = 480,
      autoHideTimeoutId = None\<rparr>"

text \<open>The phone after a jump down to 305 that hid both panels and a scroll back up by six
  pixels to 299, below the threshold; the animation frame of the second scroll is queued.\<close>

definition hiddenBelowThreshold :: controller where
  "hiddenBelowThreshold = run [ScrollTo 305, Scroll, Frame, ScrollTo 299, Scroll] wiredPhone"

text \<open>The desktop window after a scroll of three pixels, its animation frame queued.\<close>

definition desktopJitter :: controller where
  "desktopJitter = run [ScrollTo 3, Scroll] wiredDesktop"

text \<open>The phone after a jump down to 900, which hid both panels.\<close>

definition hiddenPastThreshold :: controller where
  "hiddenPastThreshold = run [ScrollTo 900, Scroll, Frame] wiredPhone"

text \<open>Then a scroll up to 850, which showed both panels and started the timer with id 1;
  and after it the disclosure expanded, its toggle event not yet delivered.\<close>

definition shownWithTimer :: controller where
  "shownWithTimer = run [ScrollTo 850, Scroll, Frame] hiddenPastThreshold"

definition openWithTimer :: controller where
  "openWithTimer = run [SetOpen True] shownWithTimer"

text \<open>Then the toggle event delivered, which cancelled the timer, and a scroll down to 950
  with its animation frame queued.\<close>

definition openScrollingDown :: controller where
  "openScrollingDown = run [Toggle, ScrollTo 950, Scroll] openWithTimer"

text \<open>The phone with both panels hidden at 900, then a touch, which started the timer with id
  1, and the disclosure expanded, its toggle event not yet delivered.\<close>

definition openHiddenWithTimer :: controller where
  "openHiddenWithTimer = run [Touchstart, SetOpen True] hiddenPastThreshold"

text \<open>The phone on a page that has the button and no table-of-contents container, after
  wiring.\<close>

definition wiredButton :: controller where
  "wiredButton =
     \<lparr>scrollY = 0, innerHeight = 500, viewportWidth = 500, hasMatchMedia = True,
      timers = [], nextTimerId = 1, frameCallbacks = 0,
      listeners = [ScrollL, TouchstartL, ClickL, ResizeL],
      tocContainer = None, backToTopButton = Some [], tocDetails = None,
      lastScrollY = 0, rafPending = False, enableHideAfterPixels = 300,
      autoHideTimeoutId = None\<rparr>"

section \<open>Auxiliary facts\<close>

lemmas handler_defs =
  clearAutoHideTimer_def scheduleAutoHide_def setScrollDirectionHidden_def autoHideCallback_def
  update_def onScroll_def onResize_def onToggle_def Let_def clearTimeout_def
  isMobileViewport_def detailsOpen_def minDelta_def autoHideDelayMs_def toggle_def className_def

lemma hideAfter_div: "hideAfter h = max 200 (3 * h div 5)"
proof -
  have "real_of_int h * 0.6 = real_of_int (3 * h) / real_of_int 5" by simp
  then have "\<lfloor>real_of_int h * 0.6\<rfloor> = 3 * h div 5"
    by (simp only: floor_divide_of_int_eq)
  then show ?thesis by (simp add: hideAfter_def)
qed

subsection \<open>Class lists\<close>

lemma toggle_mem: "c \<in> set (toggle c b cl) \<longleftrightarrow> b"
  by (simp add: toggle_def)

lemma toggle_idem: "toggle c b (toggle c b cl) = toggle c b cl"
  by (simp add: toggle_def)

lemma toggle_same: "(c \<in> set cl) = b \<Longrightarrow> toggle c b cl = cl"
  by (auto simp: toggle_def)

lemma hasHidden_Some: "hasHidden (Some cl) \<longleftrightarrow> className \<in> set cl"
  by (simp add: hasHidden_def)

lemma hasHidden_None: "\<not> hasHidden None"
  by (simp add: hasHidden_def)

lemma hasHidden_map_toggle:
  "hasHidden (map_option (toggle className b) el) \<longleftrightarrow> b \<and> el \<noteq> None"
  by (cases el) (simp_all add: hasHidden_def toggle_mem)

subsection \<open>What each function leaves alone\<close>

lemma clearAutoHideTimer_keeps:
  "tocContainer (clearAutoHideTimer s) = tocContainer s"
  "backToTopButton (clearAutoHideTimer s) = backToTopButton s"
  "tocDetails (clearAutoHideTimer s) = tocDetails s"
  "lastScrollY (clearAutoHideTimer s) = lastScrollY s"
  "rafPending (clearAutoHideTimer s) = rafPending s"
  "enableHideAfterPixels (clearAutoHideTimer s) = enableHideAfterPixels s"
  "scrollY (clearAutoHideTimer s) = scrollY s"
  "innerHeight (clearAutoHideTimer s) = innerHeight s"
  "viewportWidth (clearAutoHideTimer s) = viewportWidth s"
  "hasMatchMedia (clearAutoHideTimer s) = hasMatchMedia s"
  "nextTimerId (clearAutoHideTimer s) = nextTimerId s"
  "frameCallbacks (clearAutoHideTimer s) = frameCallbacks s"
  "listeners (clearAutoHideTimer s) = listeners s"
  by (simp_all add: clearAutoHideTimer_def split: option.splits)

lemma scheduleAutoHide_keeps:
  "tocContainer (scheduleAutoHide s) = tocContainer s"
  "backToTopButton (scheduleAutoHide s) = backToTopButton s"
  "tocDetails (scheduleAutoHide s) = tocDetails s"
  "lastScrollY (scheduleAutoHide s) = lastScrollY s"
  "rafPending (scheduleAutoHide s) = rafPending s"
  "enableHideAfterPixels (scheduleAutoHide s) = enableHideAfterPixels s"
  "scrollY (scheduleAutoHide s) = scrollY s"
  "innerHeight (scheduleAutoHide s) = innerHeight s"
  "viewportWidth (scheduleAutoHide s) = viewportWidth s"
  "hasMatchMedia (scheduleAutoHide s) = hasMatchMedia s"
  "frameCallbacks (scheduleAutoHide s) = frameCallbacks s"
  "listeners (scheduleAutoHide s) = listeners s"
  by (simp_all add: scheduleAutoHide_def Let_def clearAutoHideTimer_keeps)

lemma setScrollDirectionHidden_keeps:
  "tocDetails (setScrollDirectionHidden b s) = tocDetails s"
  "lastScrollY (setScrollDirectionHidden b s) = lastScrollY s"
  "rafPending (setScrollDirectionHidden b s) = rafPending s"
  "enableHideAfterPixels (setScrollDirectionHidden b s) = enableHideAfterPixels s"
  "scrollY (setScrollDirectionHidden b s) = scrollY s"
  "innerHeight (setScrollDirectionHidden b s) = innerHeight s"
  "viewportWidth (setScrollDirectionHidden b s) = viewportWidth s"
  "hasMatchMedia (setScrollDirectionHidden b s) = hasMatchMedia s"
  "frameCallbacks (setScrollDirectionHidden b s) = frameCallbacks s"
  "listeners (setScrollDirectionHidden b s) = listeners s"
  by (simp_all add: setScrollDirectionHidden_def Let_def scheduleAutoHide_keeps
        clearAutoHideTimer_keeps split: option.splits)

lemma setScrollDirectionHidden_toc:
  "tocContainer (setScrollDirectionHidden b s) =
     map_option (toggle className (b \<and> \<not> detailsOpen s)) (tocContainer s)"
  by (simp add: setScrollDirectionHidden_def Let_def scheduleAutoHide_keeps
        clearAutoHideTimer_keeps split: option.splits)

lemma setScrollDirectionHidden_btt:
  "backToTopButton (setScrollDirectionHidden b s) =
     map_option (toggle className b) (backToTopButton s)"
  by (simp add: setScrollDirectionHidden_def Let_def scheduleAutoHide_keeps
        clearAutoHideTimer_keeps split: option.splits)

lemma update_keeps:
  "tocDetails (update s) = tocDetails s"
  "enableHideAfterPixels (update s) = enableHideAfterPixels s"
  "scrollY (update s) = scrollY s"
  "innerHeight (update s) = innerHeight s"
  "viewportWidth (update s) = viewportWidth s"
  "hasMatchMedia (update s) = hasMatchMedia s"
  "frameCallbacks (update s) = frameCallbacks s"
  "listeners (update s) = listeners s"
  by (simp_all add: update_def Let_def setScrollDirectionHidden_keeps)

lemma mobile_keeps:
  "isMobileViewport (clearAutoHideTimer s) = isMobileViewport s"
  "isMobileViewport (scheduleAutoHide s) = isMobileViewport s"
  "isMobileViewport (setScrollDirectionHidden b s) = isMobileViewport s"
  "isMobileViewport (update s) = isMobileViewport s"
  by (simp_all add: isMobileViewport_def clearAutoHideTimer_keeps scheduleAutoHide_keeps
        setScrollDirectionHidden_keeps update_keeps)

lemma detailsOpen_keeps:
  "detailsOpen (clearAutoHideTimer s) = detailsOpen s"
  "detailsOpen (scheduleAutoHide s) = detailsOpen s"
  "detailsOpen (setScrollDirectionHidden b s) = detailsOpen s"
  "detailsOpen (update s) = detailsOpen s"
  by (simp_all add: detailsOpen_def clearAutoHideTimer_keeps scheduleAutoHide_keeps
        setScrollDirectionHidden_keeps update_keeps)

lemma autoHideAllowed_keeps:
  "autoHideAllowed (clearAutoHideTimer s) = autoHideAllowed s"
  "autoHideAllowed (scheduleAutoHide s) = autoHideAllowed s"
  "autoHideAllowed (setScrollDirectionHidden b s) = autoHideAllowed s"
  "autoHideAllowed (update s) = autoHideAllowed s"
  by (simp_all add: autoHideAllowed_def mobile_keeps detailsOpen_keeps clearAutoHideTimer_keeps
        scheduleAutoHide_keeps setScrollDirectionHidden_keeps update_keeps)

lemma autoHideAllowed_upd:
  "autoHideAllowed (s\<lparr>tocContainer := a\<rparr>) = autoHideAllowed s"
  "autoHideAllowed (s\<lparr>backToTopButton := a\<rparr>) = autoHideAllowed s"
  "autoHideAllowed (s\<lparr>lastScrollY := y\<rparr>) = autoHideAllowed s"
  "autoHideAllowed (s\<lparr>rafPending := r\<rparr>) = autoHideAllowed s"
  "autoHideAllowed (s\<lparr>frameCallbacks := n\<rparr>) = autoHideAllowed s"
  "autoHideAllowed (s\<lparr>timers := ts\<rparr>) = autoHideAllowed s"
  by (simp_all add: autoHideAllowed_def isMobileViewport_def detailsOpen_def)

subsection \<open>Timers, field by field\<close>

lemma clearAutoHideTimer_timers:
  "timers (clearAutoHideTimer s) =
     (case autoHideTimeoutId s of None \<Rightarrow> timers s | Some t \<Rightarrow> clearTimeout t (timers s))"
  by (simp add: clearAutoHideTimer_def split: option.splits)

lemma clearAutoHideTimer_id: "autoHideTimeoutId (clearAutoHideTimer s) = None"
  by (simp add: clearAutoHideTimer_def split: option.splits)

lemma clearAutoHideTimer_upd:
  "clearAutoHideTimer (s\<lparr>tocContainer := a\<rparr>) = (clearAutoHideTimer s)\<lparr>tocContainer := a\<rparr>"
  "clearAutoHideTimer (s\<lparr>backToTopButton := a\<rparr>) = (clearAutoHideTimer s)\<lparr>backToTopButton := a\<rparr>"
  "clearAutoHideTimer (s\<lparr>rafPending := r\<rparr>) = (clearAutoHideTimer s)\<lparr>rafPending := r\<rparr>"
  by (simp_all add: clearAutoHideTimer_def split: option.splits)

lemma scheduleAutoHide_timers:
  "timers (scheduleAutoHide s) =
     (if autoHideAllowed s then timers (clearAutoHideTimer s) @ [(nextTimerId s, 5000)]
      else timers (clearAutoHideTimer s))"
  by (simp add: scheduleAutoHide_def Let_def autoHideAllowed_def mobile_keeps detailsOpen_keeps
        clearAutoHideTimer_keeps autoHideDelayMs_def)

lemma scheduleAutoHide_next:
  "nextTimerId (scheduleAutoHide s) =
     (if autoHideAllowed s then Suc (nextTimerId s) else nextTimerId s)"
  by (simp add: scheduleAutoHide_def Let_def autoHideAllowed_def mobile_keeps detailsOpen_keeps
        clearAutoHideTimer_keeps)

lemma scheduleAutoHide_id:
  "autoHideTimeoutId (scheduleAutoHide s) =
     (if autoHideAllowed s then Some (nextTimerId s) else None)"
  by (simp add: scheduleAutoHide_def Let_def autoHideAllowed_def mobile_keeps detailsOpen_keeps
        clearAutoHideTimer_keeps clearAutoHideTimer_id)

lemma setScrollDirectionHidden_timers:
  "timers (setScrollDirectionHidden b s) =
     (if autoHideAllowed s \<and> \<not> b then timers (clearAutoHideTimer s) @ [(nextTimerId s, 5000)]
      else timers (clearAutoHideTimer s))"
  by (simp add: setScrollDirectionHidden_def Let_def scheduleAutoHide_timers autoHideAllowed_upd
        clearAutoHideTimer_upd split: option.splits)

lemma setScrollDirectionHidden_next:
  "nextTimerId (setScrollDirectionHidden b s) =
     (if autoHideAllowed s \<and> \<not> b then Suc (nextTimerId s) else nextTimerId s)"
  by (simp add: setScrollDirectionHidden_def Let_def scheduleAutoHide_next autoHideAllowed_upd
        clearAutoHideTimer_keeps split: option.splits)

lemma setScrollDirectionHidden_id:
  "autoHideTimeoutId (setScrollDirectionHidden b s) =
     (if autoHideAllowed s \<and> \<not> b then Some (nextTimerId s) else None)"
  by (simp add: setScrollDirectionHidden_def Let_def scheduleAutoHide_id autoHideAllowed_upd
        clearAutoHideTimer_id split: option.splits)

lemma in_cleared: "x \<in> set (timers (clearAutoHideTimer s)) \<Longrightarrow> x \<in> set (timers s)"
  by (auto simp: clearAutoHideTimer_timers clearTimeout_def split: option.splits)

subsection \<open>The evaluation routine, case by case\<close>

lemma update_desktop:
  "\<not> isMobileViewport s \<Longrightarrow>
     update s = (setScrollDirectionHidden False (s\<lparr>rafPending := False\<rparr>))\<lparr>lastScrollY := scrollY s\<rparr>"
  by (simp add: update_def Let_def isMobileViewport_def setScrollDirectionHidden_keeps)

lemma update_jitter:
  "isMobileViewport s \<Longrightarrow> \<bar>scrollY s - lastScrollY s\<bar> < minDelta \<Longrightarrow>
     update s = s\<lparr>rafPending := False\<rparr>"
  by (simp add: update_def Let_def isMobileViewport_def)

lemma update_decides:
  "isMobileViewport s \<Longrightarrow> minDelta \<le> \<bar>scrollY s - lastScrollY s\<bar> \<Longrightarrow>
     update s =
       (setScrollDirectionHidden
          (enableHideAfterPixels s \<le> scrollY s \<and> lastScrollY s < scrollY s)
          (s\<lparr>rafPending := False\<rparr>))\<lparr>lastScrollY := scrollY s\<rparr>"
  by (simp add: update_def Let_def isMobileViewport_def)

lemmas update_cases = update_desktop update_jitter update_decides

lemma raf_upd:
  "autoHideAllowed (s\<lparr>rafPending := r\<rparr>) = autoHideAllowed s"
  "detailsOpen (s\<lparr>rafPending := r\<rparr>) = detailsOpen s"
  "isMobileViewport (s\<lparr>rafPending := r\<rparr>) = isMobileViewport s"
  by (simp_all add: autoHideAllowed_def isMobileViewport_def detailsOpen_def)

lemma update_timers:
  "x \<in> set (timers (update s)) \<Longrightarrow>
     x \<in> set (timers s) \<or> (x = (nextTimerId s, 5000) \<and> autoHideAllowed s)"
proof (cases "isMobileViewport s")
  case False
  assume "x \<in> set (timers (update s))"
  with False show ?thesis
    by (auto simp: update_desktop setScrollDirectionHidden_timers raf_upd clearAutoHideTimer_upd
          dest: in_cleared split: if_splits)
next
  case True
  assume x: "x \<in> set (timers (update s))"
  show ?thesis
  proof (cases "\<bar>scrollY s - lastScrollY s\<bar> < minDelta")
    case True
    with \<open>isMobileViewport s\<close> x show ?thesis by (simp add: update_jitter)
  next
    case False
    with \<open>isMobileViewport s\<close> x show ?thesis
      by (auto simp: update_decides setScrollDirectionHidden_timers raf_upd
            clearAutoHideTimer_upd dest: in_cleared split: if_splits)
  qed
qed

lemma update_next:
  "nextTimerId (update s) \<noteq> nextTimerId s \<Longrightarrow>
     autoHideAllowed s \<and> (nextTimerId s, 5000) \<in> set (timers (update s))"
proof (cases "isMobileViewport s")
  case False
  assume "nextTimerId (update s) \<noteq> nextTimerId s"
  with False show ?thesis
    by (auto simp: update_desktop setScrollDirectionHidden_timers setScrollDirectionHidden_next
          raf_upd split: if_splits)
next
  case True
  assume x: "nextTimerId (update s) \<noteq> nextTimerId s"
  show ?thesis
  proof (cases "\<bar>scrollY s - lastScrollY s\<bar> < minDelta")
    case True
    with \<open>isMobileViewport s\<close> x show ?thesis by (simp add: update_jitter)
  next
    case False
    with \<open>isMobileViewport s\<close> x show ?thesis
      by (auto simp: update_decides setScrollDirectionHidden_timers
            setScrollDirectionHidden_next raf_upd split: if_splits)
  qed
qed

subsection \<open>Events\<close>

lemma onToggle_timers:
  "x \<in> set (timers (onToggle s)) \<Longrightarrow>
     x \<in> set (timers s) \<or> (x = (nextTimerId s, 5000) \<and> autoHideAllowed s)"
  by (auto simp: onToggle_def Let_def scheduleAutoHide_timers setScrollDirectionHidden_timers
        clearAutoHideTimer_timers clearAutoHideTimer_id setScrollDirectionHidden_id
        clearTimeout_def
        dest: in_cleared split: if_splits option.splits)

lemma onToggle_next:
  "nextTimerId (onToggle s) \<noteq> nextTimerId s \<Longrightarrow>
     autoHideAllowed s \<and> (nextTimerId s, 5000) \<in> set (timers (onToggle s))"
  by (auto simp: onToggle_def Let_def scheduleAutoHide_timers scheduleAutoHide_next
        setScrollDirectionHidden_next clearAutoHideTimer_keeps autoHideAllowed_def
        split: if_splits)

lemma onToggle_allowed: "autoHideAllowed (onToggle s) = autoHideAllowed s"
  by (simp add: onToggle_def Let_def autoHideAllowed_keeps autoHideAllowed_upd)

lemma autoHideCallback_timers:
  "x \<in> set (timers (autoHideCallback s)) \<Longrightarrow> x \<in> set (timers s)"
  by (auto simp: autoHideCallback_def setScrollDirectionHidden_timers dest: in_cleared
        split: if_splits)

lemma autoHideCallback_next: "nextTimerId (autoHideCallback s) = nextTimerId s"
  by (simp add: autoHideCallback_def setScrollDirectionHidden_next)

lemma in_clearTimeout: "x \<in> set (clearTimeout t ts) \<Longrightarrow> x \<in> set ts"
  by (simp add: clearTimeout_def)

lemma step_timers:
  "x \<in> set (timers (step e s)) \<Longrightarrow>
     x \<in> set (timers s) \<or> (x = (nextTimerId s, 5000) \<and> autoHideAllowed (step e s))"
proof (cases e)
  case Frame
  assume "x \<in> set (timers (step e s))"
  with Frame show ?thesis
    using update_timers [of x "s\<lparr>frameCallbacks := frameCallbacks s - 1\<rparr>"]
    by (auto simp: autoHideAllowed_keeps autoHideAllowed_upd split: if_splits)
next
  case Resize
  assume "x \<in> set (timers (step e s))"
  with Resize show ?thesis
    using update_timers [of x "s\<lparr>enableHideAfterPixels := hideAfter (innerHeight s),
                                   lastScrollY := scrollY s\<rparr>"]
    by (auto simp: onResize_def autoHideAllowed_keeps split: if_splits)
next
  case Toggle
  assume "x \<in> set (timers (step e s))"
  with Toggle show ?thesis
    by (auto simp: onToggle_allowed dest: onToggle_timers split: if_splits)
next
  case (Timeout t)
  assume "x \<in> set (timers (step e s))"
  with Timeout show ?thesis
    by (auto dest!: autoHideCallback_timers in_clearTimeout split: if_splits)
qed (auto simp: onScroll_def scheduleAutoHide_timers autoHideAllowed_keeps
       dest: in_cleared split: if_splits option.splits)

lemma step_next:
  "nextTimerId (step e s) \<noteq> nextTimerId s \<Longrightarrow>
     autoHideAllowed (step e s) \<and> (nextTimerId s, 5000) \<in> set (timers (step e s))"
proof (cases e)
  case Frame
  assume "nextTimerId (step e s) \<noteq> nextTimerId s"
  with Frame show ?thesis
    using update_next [of "s\<lparr>frameCallbacks := frameCallbacks s - 1\<rparr>"]
    by (auto simp: autoHideAllowed_keeps autoHideAllowed_upd split: if_splits)
next
  case Resize
  assume "nextTimerId (step e s) \<noteq> nextTimerId s"
  with Resize show ?thesis
    using update_next [of "s\<lparr>enableHideAfterPixels := hideAfter (innerHeight s),
                                 lastScrollY := scrollY s\<rparr>"]
    by (auto simp: onResize_def autoHideAllowed_keeps split: if_splits)
next
  case Toggle
  assume "nextTimerId (step e s) \<noteq> nextTimerId s"
  with Toggle show ?thesis
    by (auto simp: onToggle_allowed dest: onToggle_next split: if_splits)
next
  case (Timeout t)
  assume "nextTimerId (step e s) \<noteq> nextTimerId s"
  with Timeout show ?thesis
    by (auto simp: autoHideCallback_next split: if_splits)
qed (auto simp: onScroll_def scheduleAutoHide_timers scheduleAutoHide_next autoHideAllowed_keeps
       split: if_splits option.splits)

subsection \<open>Classes after an evaluation\<close>

lemma update_toc:
  "tocContainer (update s) =
     (if isMobileViewport s \<and> \<bar>scrollY s - lastScrollY s\<bar> < minDelta then tocContainer s
      else map_option
             (toggle className
                (isMobileViewport s \<and> enableHideAfterPixels s \<le> scrollY s \<and>
                 lastScrollY s < scrollY s \<and> \<not> detailsOpen s))
             (tocContainer s))"
  by (cases "isMobileViewport s"; cases "\<bar>scrollY s - lastScrollY s\<bar> < minDelta")
     (simp_all add: update_cases setScrollDirectionHidden_toc raf_upd)

lemma update_btt:
  "backToTopButton (update s) =
     (if isMobileViewport s \<and> \<bar>scrollY s - lastScrollY s\<bar> < minDelta then backToTopButton s
      else map_option
             (toggle className
                (isMobileViewport s \<and> enableHideAfterPixels s \<le> scrollY s \<and>
                 lastScrollY s < scrollY s))
             (backToTopButton s))"
  by (cases "isMobileViewport s"; cases "\<bar>scrollY s - lastScrollY s\<bar> < minDelta")
     (simp_all add: update_cases setScrollDirectionHidden_btt raf_upd)

lemma update_last:
  "lastScrollY (update s) =
     (if isMobileViewport s \<and> \<bar>scrollY s - lastScrollY s\<bar> < minDelta then lastScrollY s
      else scrollY s)"
  by (cases "isMobileViewport s"; cases "\<bar>scrollY s - lastScrollY s\<bar> < minDelta")
     (simp_all add: update_cases)

lemma onToggle_toc:
  "tocContainer (onToggle s) =
     (if detailsOpen s then map_option (toggle className False) (tocContainer s)
      else tocContainer s)"
  by (simp add: onToggle_def Let_def clearAutoHideTimer_keeps setScrollDirectionHidden_toc
        scheduleAutoHide_keeps)

lemma onToggle_details: "tocDetails (onToggle s) = tocDetails s"
  by (simp add: onToggle_def Let_def clearAutoHideTimer_keeps setScrollDirectionHidden_keeps
        scheduleAutoHide_keeps)

lemma autoHideCallback_open: "detailsOpen s \<Longrightarrow> autoHideCallback s = s"
  by (simp add: autoHideCallback_def)

lemma step_keeps_open_toc:
  "detailsOpen (step e s) \<Longrightarrow> \<not> hasHidden (tocContainer s) \<Longrightarrow>
     \<not> hasHidden (tocContainer (step e s))"
proof (cases e)
  case (Timeout t)
  assume "detailsOpen (step e s)" "\<not> hasHidden (tocContainer s)"
  with Timeout show ?thesis
    by (auto simp: autoHideCallback_def setScrollDirectionHidden_toc
          setScrollDirectionHidden_keeps detailsOpen_def hasHidden_map_toggle split: if_splits)
qed (auto simp: update_toc update_keeps detailsOpen_def hasHidden_map_toggle onScroll_def
       onResize_def onToggle_toc onToggle_details scheduleAutoHide_keeps
       split: option.splits if_splits)

lemma step_details:
  "\<forall>b. e \<noteq> SetOpen b \<Longrightarrow> tocDetails (step e s) = tocDetails s"
  by (cases e)
     (auto simp: update_keeps scheduleAutoHide_keeps onToggle_details onScroll_def
        onResize_def autoHideCallback_def setScrollDirectionHidden_keeps)

lemma run_keeps_open_toc:
  "detailsOpen s \<Longrightarrow> \<not> hasHidden (tocContainer s) \<Longrightarrow>
     \<forall>e \<in> set es. \<forall>b. e \<noteq> SetOpen b \<Longrightarrow>
     \<not> hasHidden (tocContainer (run es s))"
proof (induction es arbitrary: s)
  case Nil
  then show ?case by simp
next
  case (Cons e es)
  from Cons.prems have noset: "\<forall>b. e \<noteq> SetOpen b" by simp
  with Cons.prems(1) have o: "detailsOpen (step e s)"
    by (simp add: detailsOpen_def step_details)
  with Cons.prems(2) have "\<not> hasHidden (tocContainer (step e s))"
    by (simp add: step_keeps_open_toc)
  with o Cons.prems(3) show ?case
    by (simp add: Cons.IH)
qed

subsection \<open>The invariant of the pending timers\<close>

lemma short_list: "length xs \<le> 1 \<Longrightarrow> xs = [] \<or> (\<exists>x. xs = [x])"
  by (cases xs) auto

lemma oneTimer_upd:
  "oneTimer (s\<lparr>tocContainer := a\<rparr>) = oneTimer s"
  "oneTimer (s\<lparr>backToTopButton := a\<rparr>) = oneTimer s"
  "oneTimer (s\<lparr>tocDetails := d\<rparr>) = oneTimer s"
  "oneTimer (s\<lparr>lastScrollY := y\<rparr>) = oneTimer s"
  "oneTimer (s\<lparr>rafPending := r\<rparr>) = oneTimer s"
  "oneTimer (s\<lparr>enableHideAfterPixels := y\<rparr>) = oneTimer s"
  "oneTimer (s\<lparr>scrollY := y\<rparr>) = oneTimer s"
  "oneTimer (s\<lparr>innerHeight := y\<rparr>) = oneTimer s"
  "oneTimer (s\<lparr>viewportWidth := y\<rparr>) = oneTimer s"
  "oneTimer (s\<lparr>frameCallbacks := n\<rparr>) = oneTimer s"
  "oneTimer (s\<lparr>listeners := ls\<rparr>) = oneTimer s"
  by (simp_all add: oneTimer_def)

lemma oneTimer_cleared: "oneTimer s \<Longrightarrow> timers (clearAutoHideTimer s) = []"
  using short_list [of "timers s"]
  by (auto simp: oneTimer_def clearAutoHideTimer_timers clearTimeout_def split: option.splits)

lemma oneTimer_clearAutoHideTimer: "oneTimer s \<Longrightarrow> oneTimer (clearAutoHideTimer s)"
  by (simp add: oneTimer_def oneTimer_cleared)

lemma oneTimer_scheduleAutoHide: "oneTimer s \<Longrightarrow> oneTimer (scheduleAutoHide s)"
  by (simp add: oneTimer_def oneTimer_cleared scheduleAutoHide_timers scheduleAutoHide_id
        scheduleAutoHide_next)

lemma oneTimer_setScrollDirectionHidden:
  "oneTimer s \<Longrightarrow> oneTimer (setScrollDirectionHidden b s)"
  by (simp add: oneTimer_def oneTimer_cleared setScrollDirectionHidden_timers
        setScrollDirectionHidden_id setScrollDirectionHidden_next)

lemma oneTimer_update: "oneTimer s \<Longrightarrow> oneTimer (update s)"
  by (simp add: update_def Let_def oneTimer_setScrollDirectionHidden oneTimer_upd)

lemma oneTimer_fired:
  "oneTimer s \<Longrightarrow> oneTimer (s\<lparr>timers := clearTimeout t (timers s)\<rparr>)"
  using short_list [of "timers s"]
  by (auto simp: oneTimer_def clearTimeout_def)

lemma oneTimer_step: "oneTimer s \<Longrightarrow> oneTimer (step e s)"
  by (cases e)
     (simp_all add: oneTimer_scheduleAutoHide oneTimer_update oneTimer_fired
        oneTimer_setScrollDirectionHidden oneTimer_clearAutoHideTimer oneTimer_upd
        autoHideCallback_def onScroll_def onResize_def onToggle_def Let_def
        split: option.splits)

lemma oneTimer_run: "oneTimer s \<Longrightarrow> oneTimer (run es s)"
  by (induction es arbitrary: s) (simp_all add: oneTimer_step)

lemma oneTimer_wired:
  assumes "DOMContentLoaded d w = Wired c" and "timers w = []"
  shows "oneTimer c"
proof -
  let ?s0 = "browser.extend w
               (controller.fields (toc_container d) (back_to_top d)
                  (case toc_container d of None \<Rightarrow> None | Some _ \<Rightarrow> toc_details d)
                  (scrollY w) False (hideAfter (innerHeight w)) None)"
  have "oneTimer ?s0"
    using assms(2) by (simp add: oneTimer_def browser.defs controller.defs)
  then have "oneTimer (update (?s0\<lparr>listeners := listeners ?s0 @ [ScrollL, TouchstartL, ClickL, ResizeL]\<rparr>))"
    by (simp add: oneTimer_update oneTimer_upd)
  with assms(1) show ?thesis
    by (auto simp: DOMContentLoaded_def Let_def oneTimer_upd split: if_splits)
qed

lemma mobile_upd:
  "isMobileViewport (s\<lparr>lastScrollY := y\<rparr>) = isMobileViewport s"
  "isMobileViewport (s\<lparr>enableHideAfterPixels := y\<rparr>) = isMobileViewport s"
  "isMobileViewport (s\<lparr>rafPending := r\<rparr>) = isMobileViewport s"
  "isMobileViewport (s\<lparr>tocDetails := d\<rparr>) = isMobileViewport s"
  "isMobileViewport (s\<lparr>frameCallbacks := n\<rparr>) = isMobileViewport s"
  "isMobileViewport (s\<lparr>timers := ts\<rparr>) = isMobileViewport s"
  "isMobileViewport (s\<lparr>scrollY := y\<rparr>) = isMobileViewport s"
  by (simp_all add: isMobileViewport_def)

lemma onToggle_mobile: "isMobileViewport (onToggle s) = isMobileViewport s"
  by (simp add: onToggle_def Let_def mobile_keeps mobile_upd)

lemma autoHideCallback_mobile: "isMobileViewport (autoHideCallback s) = isMobileViewport s"
  by (simp add: autoHideCallback_def mobile_keeps)

lemma step_mobile:
  "isMobileViewport (step e s) = isMobileViewport s \<or>
     (nextTimerId (step e s) = nextTimerId s \<and> timers (step e s) = timers s)"
  by (cases e)
     (simp_all add: mobile_keeps onToggle_mobile autoHideCallback_mobile onScroll_def
        onResize_def mobile_upd split: option.splits)

subsection \<open>Missing elements, and the timer that a touch starts\<close>

lemma map_toggle_idem:
  "map_option (toggle c b) (map_option (toggle c b) el) = map_option (toggle c b) el"
  by (cases el) (simp_all add: toggle_idem)

lemma autoHideCallback_toc_None:
  "tocContainer (autoHideCallback s) = None \<longleftrightarrow> tocContainer s = None"
  by (simp add: autoHideCallback_def setScrollDirectionHidden_toc)

lemma autoHideCallback_btt_None:
  "backToTopButton (autoHideCallback s) = None \<longleftrightarrow> backToTopButton s = None"
  by (simp add: autoHideCallback_def setScrollDirectionHidden_btt)

lemma onToggle_btt:
  "backToTopButton (onToggle s) =
     (if detailsOpen s then map_option (toggle className False) (backToTopButton s)
      else backToTopButton s)"
  by (simp add: onToggle_def Let_def clearAutoHideTimer_keeps setScrollDirectionHidden_btt
        scheduleAutoHide_keeps)

lemma step_toc_None: "tocContainer (step e s) = None \<longleftrightarrow> tocContainer s = None"
  by (cases e)
     (simp_all add: update_toc onScroll_def onResize_def onToggle_toc scheduleAutoHide_keeps
        autoHideCallback_toc_None split: option.splits)

lemma step_btt_None: "backToTopButton (step e s) = None \<longleftrightarrow> backToTopButton s = None"
  by (cases e)
     (simp_all add: update_btt onScroll_def onResize_def onToggle_btt scheduleAutoHide_keeps
        autoHideCallback_btt_None split: option.splits)

lemma map_toggle_hidden: "hasHidden el \<Longrightarrow> map_option (toggle className True) el = el"
  by (cases el) (simp_all add: hasHidden_def toggle_def)

lemma fire_scheduled:
  assumes "autoHideAllowed s"
  shows "step (Timeout (nextTimerId s)) (scheduleAutoHide s) =
           setScrollDirectionHidden True
             ((scheduleAutoHide s)\<lparr>timers :=
                clearTimeout (nextTimerId s) (timers (scheduleAutoHide s))\<rparr>)"
proof -
  have "nextTimerId s \<in> fst ` set (timers (scheduleAutoHide s))"
    using assms by (simp add: scheduleAutoHide_timers)
  moreover have "autoHideAllowed ((scheduleAutoHide s)\<lparr>timers :=
                   clearTimeout (nextTimerId s) (timers (scheduleAutoHide s))\<rparr>)"
    using assms by (simp add: autoHideAllowed_upd autoHideAllowed_keeps)
  ultimately show ?thesis
    by (simp add: autoHideCallback_def autoHideAllowed_def)
qed

subsection \<open>Two evaluations in a row\<close>

lemma setScrollDirectionHidden_more:
  "controller.more (setScrollDirectionHidden b s) = controller.more s"
  by (simp add: setScrollDirectionHidden_def scheduleAutoHide_def clearAutoHideTimer_def Let_def
        split: option.splits)

lemma update_twice_desktop:
  assumes "\<not> isMobileViewport s"
  shows "update (update s) = update s"
proof -
  have d: "\<not> isMobileViewport (update s)"
    using assms by (simp add: mobile_keeps)
  have a: "\<not> autoHideAllowed x" if "\<not> isMobileViewport x" for x
    using that by (simp add: autoHideAllowed_def)
  have m: "\<not> isMobileViewport (s\<lparr>rafPending := False\<rparr>)"
    using assms by (simp add: raf_upd)
  have m2: "\<not> isMobileViewport
     ((setScrollDirectionHidden False (s\<lparr>rafPending := False\<rparr>))
        \<lparr>lastScrollY := scrollY s, rafPending := False\<rparr>)"
    using m by (simp add: isMobileViewport_def setScrollDirectionHidden_keeps)
  have uu: "update (update s) =
      (setScrollDirectionHidden False ((update s)\<lparr>rafPending := False\<rparr>))
        \<lparr>lastScrollY := scrollY (update s)\<rparr>"
    by (rule update_desktop [OF d])
  show ?thesis
    unfolding uu unfolding update_desktop [OF assms]
    by (rule controller.equality)
       (simp_all add: setScrollDirectionHidden_keeps setScrollDirectionHidden_timers
          setScrollDirectionHidden_next setScrollDirectionHidden_id setScrollDirectionHidden_toc
          setScrollDirectionHidden_btt setScrollDirectionHidden_more a [OF m] a [OF m2]
          clearAutoHideTimer_timers map_toggle_idem detailsOpen_def)
qed

lemma update_twice_mobile:
  assumes "isMobileViewport s"
  shows "update (update s) = update s"
proof (cases "\<bar>scrollY s - lastScrollY s\<bar> < minDelta")
  case True
  with assms show ?thesis
    by (simp add: update_jitter mobile_upd)
next
  case False
  with assms have r: "rafPending (update s) = False"
    by (simp add: update_decides setScrollDirectionHidden_keeps)
  from assms False have "isMobileViewport (update s)"
    and "\<bar>scrollY (update s) - lastScrollY (update s)\<bar> < minDelta"
    by (simp_all add: mobile_keeps update_keeps update_last minDelta_def)
  then have "update (update s) = (update s)\<lparr>rafPending := False\<rparr>"
    by (rule update_jitter)
  also have "\<dots> = (update s)\<lparr>rafPending := rafPending (update s)\<rparr>"
    by (simp only: r)
  also have "\<dots> = update s"
    by simp
  finally show ?thesis .
qed

subsection \<open>The concrete pages, evaluated\<close>

lemma wiredPhone_wired: "DOMContentLoaded fullPage phone = Wired wiredPhone"
  by (auto simp: DOMContentLoaded_def fullPage_def phone_def wiredPhone_def handler_defs
      hideAfter_div browser.defs controller.defs)

lemma wiredDesktop_wired: "DOMContentLoaded fullPage desktop = Wired wiredDesktop"
  by (auto simp: DOMContentLoaded_def fullPage_def desktop_def wiredDesktop_def handler_defs
      hideAfter_div browser.defs controller.defs)

lemma hiddenBelowThreshold_eq:
  "hiddenBelowThreshold =
     wiredPhone\<lparr>scrollY := 299, lastScrollY := 305, rafPending := True, frameCallbacks := 1,
       tocContainer := Some [className], backToTopButton := Some [className]\<rparr>"
  by (simp add: hiddenBelowThreshold_def wiredPhone_def handler_defs)

lemma hiddenPastThreshold_eq:
  "hiddenPastThreshold =
     wiredPhone\<lparr>scrollY := 900, lastScrollY := 900,
       tocContainer := Some [className], backToTopButton := Some [className]\<rparr>"
  by (simp add: hiddenPastThreshold_def wiredPhone_def handler_defs)

lemma shownWithTimer_eq:
  "shownWithTimer =
     wiredPhone\<lparr>scrollY := 850, lastScrollY := 850, timers := [(1, 5000)],
       nextTimerId := 2, autoHideTimeoutId := Some 1\<rparr>"
  by (simp add: shownWithTimer_def hiddenPastThreshold_eq wiredPhone_def handler_defs)

lemma openWithTimer_eq:
  "openWithTimer =
     wiredPhone\<lparr>scrollY := 850, lastScrollY := 850, timers := [(1, 5000)],
       nextTimerId := 2, autoHideTimeoutId := Some 1, tocDetails := Some True\<rparr>"
  by (simp add: openWithTimer_def shownWithTimer_eq wiredPhone_def)

lemma openScrollingDown_eq:
  "openScrollingDown =
     wiredPhone\<lparr>scrollY := 950, lastScrollY := 850, nextTimerId := 2,
       tocDetails := Some True, rafPending := True, frameCallbacks := 1\<rparr>"
  by (simp add: openScrollingDown_def openWithTimer_eq wiredPhone_def handler_defs)

lemma desktopJitter_eq:
  "desktopJitter = wiredDesktop\<lparr>scrollY := 3, rafPending := True, frameCallbacks := 1\<rparr>"
  by (simp add: desktopJitter_def wiredDesktop_def handler_defs)

lemma openHiddenWithTimer_eq:
  "openHiddenWithTimer =
     wiredPhone\<lparr>scrollY := 900, lastScrollY := 900, timers := [(1, 5000)],
       nextTimerId := 2, autoHideTimeoutId := Some 1, tocDetails := Some True,
       tocContainer := Some [className], backToTopButton := Some [className]\<rparr>"
  by (simp add: openHiddenWithTimer_def hiddenPastThreshold_eq wiredPhone_def handler_defs)

lemmas page_eqs =
  hiddenBelowThreshold_eq hiddenPastThreshold_eq shownWithTimer_eq openWithTimer_eq
  openScrollingDown_eq desktopJitter_eq wiredPhone_def wiredDesktop_def

lemma wiredButton_wired: "DOMContentLoaded buttonOnly phone = Wired wiredButton"
  by (auto simp: DOMContentLoaded_def buttonOnly_def phone_def wiredButton_def handler_defs
      hideAfter_div browser.defs controller.defs)

section \<open>The claims\<close>

text \<open>
  Claim C1 as stated fails for the timer: on the phone, a jump down to 900 hides both panels,
  a touch starts timer 1, and the disclosure is expanded; when the timer fires before the
  toggle event is delivered, its callback returns at the test of the disclosure, and the
  container carries the class as before.
\<close>

theorem toc_exempt_counterexample:
  "DOMContentLoaded fullPage phone = Wired wiredPhone \<and>
   run [ScrollTo 900, Scroll, Frame, Touchstart, SetOpen True] wiredPhone = openHiddenWithTimer \<and>
   detailsOpen openHiddenWithTimer \<and>
   timers openHiddenWithTimer = [(1, 5000)] \<and>
   hasHidden (tocContainer (step (Timeout 1) openHiddenWithTimer))"
proof -
  have "run [ScrollTo 900, Scroll, Frame, Touchstart, SetOpen True] wiredPhone =
          openHiddenWithTimer"
    by (simp add: openHiddenWithTimer_def hiddenPastThreshold_def)
  then show ?thesis
    by (simp add: wiredPhone_wired openHiddenWithTimer_eq wiredPhone_def handler_defs
          hasHidden_def)
qed

text \<open>
  Claim C1, as amended. While the disclosure of the table of contents is expanded, a call of
  \<^verbatim>\<open>setScrollDirectionHidden\<close> with either argument leaves the container without the
  class \<^verbatim>\<open>scroll-direction-hidden\<close>, since the exemption is tested where the class is
  written, and so does an evaluation that decides. The timer that fires then applies nothing:
  the container keeps the class list it had. No event puts the class on a container that did
  not carry it when the disclosure is expanded after the event. Once the disclosure is
  expanded and its toggle event delivered, the container does not carry the class, whatever
  was decided before, and it does not carry it after any further events that leave the
  attribute alone.
\<close>

theorem toc_exempt_while_open:
  "(detailsOpen s \<longrightarrow> \<not> hasHidden (tocContainer (setScrollDirectionHidden isHidden s))) \<and>
   (detailsOpen s \<and> (\<not> isMobileViewport s \<or> minDelta \<le> \<bar>scrollY s - lastScrollY s\<bar>) \<longrightarrow>
      \<not> hasHidden (tocContainer (update s))) \<and>
   (detailsOpen s \<longrightarrow> tocContainer (step (Timeout t) s) = tocContainer s) \<and>
   (detailsOpen (step e s) \<and> \<not> hasHidden (tocContainer s) \<longrightarrow>
      \<not> hasHidden (tocContainer (step e s))) \<and>
   (ToggleL \<in> set (listeners s) \<and> tocDetails s \<noteq> None \<longrightarrow>
      \<not> hasHidden (tocContainer (run [SetOpen True, Toggle] s))) \<and>
   (ToggleL \<in> set (listeners s) \<and> detailsOpen s \<and> (\<forall>e \<in> set es. \<forall>b. e \<noteq> SetOpen b) \<longrightarrow>
      \<not> hasHidden (tocContainer (run (Toggle # es) s)))"
proof (intro conjI impI)
  assume "detailsOpen s"
  then show "\<not> hasHidden (tocContainer (setScrollDirectionHidden isHidden s))"
    by (simp add: setScrollDirectionHidden_toc hasHidden_map_toggle)
next
  assume "detailsOpen s \<and> (\<not> isMobileViewport s \<or> minDelta \<le> \<bar>scrollY s - lastScrollY s\<bar>)"
  then show "\<not> hasHidden (tocContainer (update s))"
    by (auto simp: update_toc hasHidden_map_toggle)
next
  assume "detailsOpen s"
  then show "tocContainer (step (Timeout t) s) = tocContainer s"
    by (simp add: autoHideCallback_open detailsOpen_def)
next
  assume "detailsOpen (step e s) \<and> \<not> hasHidden (tocContainer s)"
  then show "\<not> hasHidden (tocContainer (step e s))"
    by (simp add: step_keeps_open_toc)
next
  assume "ToggleL \<in> set (listeners s) \<and> tocDetails s \<noteq> None"
  then show "\<not> hasHidden (tocContainer (run [SetOpen True, Toggle] s))"
    by (auto simp: onToggle_toc detailsOpen_def hasHidden_map_toggle)
next
  assume a: "ToggleL \<in> set (listeners s) \<and> detailsOpen s \<and>
             (\<forall>e \<in> set es. \<forall>b. e \<noteq> SetOpen b)"
  then have "detailsOpen (step Toggle s)"
    and "\<not> hasHidden (tocContainer (step Toggle s))"
    by (simp_all add: detailsOpen_def onToggle_details onToggle_toc hasHidden_map_toggle)
  with a have "\<not> hasHidden (tocContainer (run es (step Toggle s)))"
    by (simp add: run_keeps_open_toc)
  then show "\<not> hasHidden (tocContainer (run (Toggle # es) s))"
    by simp
qed

text \<open>The phone with the disclosure expanded and a scroll down of 100 pixels past the
  threshold: the evaluation hides the button and not the container; a container hidden by a
  scroll is shown by expanding the disclosure, and stays shown through a scroll down, its
  evaluation and a touch.\<close>

theorem toc_exempt_while_open_witness:
  "detailsOpen openScrollingDown \<and>
   \<not> hasHidden (tocContainer (setScrollDirectionHidden True openScrollingDown)) \<and>
   8 \<le> \<bar>scrollY openScrollingDown - lastScrollY openScrollingDown\<bar> \<and>
   \<not> hasHidden (tocContainer (update openScrollingDown)) \<and>
   hasHidden (backToTopButton (update openScrollingDown)) \<and>
   detailsOpen openWithTimer \<and>
   tocContainer (step (Timeout 1) openWithTimer) = tocContainer openWithTimer \<and>
   detailsOpen (step Frame openScrollingDown) \<and>
   \<not> hasHidden (tocContainer openScrollingDown) \<and>
   \<not> hasHidden (tocContainer (step Frame openScrollingDown)) \<and>
   ToggleL \<in> set (listeners hiddenPastThreshold) \<and>
   tocDetails hiddenPastThreshold \<noteq> None \<and>
   hasHidden (tocContainer hiddenPastThreshold) \<and>
   \<not> hasHidden (tocContainer (run [SetOpen True, Toggle] hiddenPastThreshold)) \<and>
   ToggleL \<in> set (listeners openHiddenWithTimer) \<and>
   detailsOpen openHiddenWithTimer \<and>
   hasHidden (tocContainer openHiddenWithTimer) \<and>
   \<not> hasHidden
       (tocContainer (run [Toggle, ScrollTo 950, Scroll, Frame, Touchstart] openHiddenWithTimer))"
proof -
  have a: "detailsOpen openScrollingDown"
    and b: "\<not> isMobileViewport openScrollingDown \<or>
            minDelta \<le> \<bar>scrollY openScrollingDown - lastScrollY openScrollingDown\<bar>"
    and c: "detailsOpen openWithTimer"
    and d: "detailsOpen (step Frame openScrollingDown)"
    and e: "\<not> hasHidden (tocContainer openScrollingDown)"
    and f: "ToggleL \<in> set (listeners hiddenPastThreshold)"
    and g: "tocDetails hiddenPastThreshold \<noteq> None"
    by (simp_all add: page_eqs handler_defs hasHidden_def)
  have h: "hasHidden (backToTopButton (update openScrollingDown))"
    and i: "hasHidden (tocContainer hiddenPastThreshold)"
    and j: "8 \<le> \<bar>scrollY openScrollingDown - lastScrollY openScrollingDown\<bar>"
    by (simp_all add: page_eqs handler_defs hasHidden_def)
  have k: "ToggleL \<in> set (listeners openHiddenWithTimer)"
    and l: "detailsOpen openHiddenWithTimer"
    and m: "hasHidden (tocContainer openHiddenWithTimer)"
    by (simp_all add: openHiddenWithTimer_eq wiredPhone_def detailsOpen_def hasHidden_def)
  have n: "\<forall>e \<in> set [ScrollTo 950, Scroll, Frame, Touchstart]. \<forall>b. e \<noteq> SetOpen b"
    by simp
  from a b d e
  have "\<not> hasHidden (tocContainer (setScrollDirectionHidden True openScrollingDown))"
    and "\<not> hasHidden (tocContainer (update openScrollingDown))"
    and "\<not> hasHidden (tocContainer (step Frame openScrollingDown))"
    using toc_exempt_while_open [of openScrollingDown True 1 Frame] by blast+
  moreover from c
  have "tocContainer (step (Timeout 1) openWithTimer) = tocContainer openWithTimer"
    using toc_exempt_while_open [of openWithTimer True 1 Frame] by blast
  moreover from f g
  have "\<not> hasHidden (tocContainer (run [SetOpen True, Toggle] hiddenPastThreshold))"
    using toc_exempt_while_open [of hiddenPastThreshold True 1 Frame] by blast
  moreover from k l n
  have "\<not> hasHidden
       (tocContainer (run [Toggle, ScrollTo 950, Scroll, Frame, Touchstart] openHiddenWithTimer))"
    using toc_exempt_while_open
            [of openHiddenWithTimer True 1 Frame "[ScrollTo 950, Scroll, Frame, Touchstart]"]
    by blast
  ultimately show ?thesis
    using a c d e f g h i j k l m by blast
qed

text \<open>
  Claim C2. After any event, a pending timer either was pending before or is a new one,
  registered with a delay of 5000 ms under the three conditions (mobile viewport, scroll
  position at or past the threshold, disclosure not expanded); the browser gives out a timer
  id only then. When a pending timer fires under the three conditions, every managed element
  carries the class afterwards; when one of them fails, the firing changes nothing but the
  list of pending timers, which the fired timer has left.
\<close>

theorem auto_hide_timer:
  "(\<forall>x \<in> set (timers (step e s)).
      x \<in> set (timers s) \<or> (x = (nextTimerId s, 5000) \<and> autoHideAllowed (step e s))) \<and>
   (nextTimerId (step e s) \<noteq> nextTimerId s \<longrightarrow>
      autoHideAllowed (step e s) \<and> (nextTimerId s, 5000) \<in> set (timers (step e s))) \<and>
   (t \<in> fst ` set (timers s) \<longrightarrow>
      (autoHideAllowed s \<longrightarrow>
         (tocContainer s \<noteq> None \<longrightarrow> hasHidden (tocContainer (step (Timeout t) s))) \<and>
         (backToTopButton s \<noteq> None \<longrightarrow> hasHidden (backToTopButton (step (Timeout t) s)))) \<and>
      (\<not> autoHideAllowed s \<longrightarrow>
         step (Timeout t) s = s\<lparr>timers := clearTimeout t (timers s)\<rparr>))"
proof (intro conjI ballI impI)
  fix x assume "x \<in> set (timers (step e s))"
  then show "x \<in> set (timers s) \<or> (x = (nextTimerId s, 5000) \<and> autoHideAllowed (step e s))"
    by (rule step_timers)
next
  assume "nextTimerId (step e s) \<noteq> nextTimerId s"
  then show "autoHideAllowed (step e s)" "(nextTimerId s, 5000) \<in> set (timers (step e s))"
    by (simp_all add: step_next)
next
  assume "t \<in> fst ` set (timers s)" "autoHideAllowed s" "tocContainer s \<noteq> None"
  then show "hasHidden (tocContainer (step (Timeout t) s))"
    by (auto simp: autoHideCallback_def autoHideAllowed_def isMobileViewport_def detailsOpen_def
          setScrollDirectionHidden_toc hasHidden_map_toggle)
next
  assume "t \<in> fst ` set (timers s)" "autoHideAllowed s" "backToTopButton s \<noteq> None"
  then show "hasHidden (backToTopButton (step (Timeout t) s))"
    by (auto simp: autoHideCallback_def autoHideAllowed_def isMobileViewport_def detailsOpen_def
          setScrollDirectionHidden_btt hasHidden_map_toggle)
next
  assume "t \<in> fst ` set (timers s)" "\<not> autoHideAllowed s"
  then show "step (Timeout t) s = s\<lparr>timers := clearTimeout t (timers s)\<rparr>"
    by (auto simp: autoHideCallback_def autoHideAllowed_def isMobileViewport_def detailsOpen_def)
qed

text \<open>The phone at 850 with timer 1 pending: a touch starts timer 2, the firing of timer 1
  hides both panels; with the disclosure expanded the firing does nothing.\<close>

theorem auto_hide_timer_witness:
  "(2, 5000) \<in> set (timers (step Touchstart shownWithTimer)) \<and>
   (2, 5000) \<notin> set (timers shownWithTimer) \<and>
   nextTimerId shownWithTimer = 2 \<and>
   nextTimerId (step Touchstart shownWithTimer) \<noteq> nextTimerId shownWithTimer \<and>
   autoHideAllowed (step Touchstart shownWithTimer) \<and>
   1 \<in> fst ` set (timers shownWithTimer) \<and>
   autoHideAllowed shownWithTimer \<and>
   tocContainer shownWithTimer \<noteq> None \<and>
   backToTopButton shownWithTimer \<noteq> None \<and>
   hasHidden (tocContainer (step (Timeout 1) shownWithTimer)) \<and>
   hasHidden (backToTopButton (step (Timeout 1) shownWithTimer)) \<and>
   1 \<in> fst ` set (timers openWithTimer) \<and>
   \<not> autoHideAllowed openWithTimer \<and>
   step (Timeout 1) openWithTimer = openWithTimer\<lparr>timers := []\<rparr>"
proof -
  have a: "(2, 5000) \<in> set (timers (step Touchstart shownWithTimer))"
    and b: "(2, 5000) \<notin> set (timers shownWithTimer)"
    and c: "nextTimerId shownWithTimer = 2"
    and d: "nextTimerId (step Touchstart shownWithTimer) \<noteq> nextTimerId shownWithTimer"
    and e: "1 \<in> fst ` set (timers shownWithTimer)"
    and f: "autoHideAllowed shownWithTimer"
    and g: "tocContainer shownWithTimer \<noteq> None"
    and h: "backToTopButton shownWithTimer \<noteq> None"
    and i: "1 \<in> fst ` set (timers openWithTimer)"
    and j: "\<not> autoHideAllowed openWithTimer"
    and k: "clearTimeout 1 (timers openWithTimer) = []"
    by (simp_all add: page_eqs handler_defs autoHideAllowed_def)
  from a b c d have "autoHideAllowed (step Touchstart shownWithTimer)"
    using auto_hide_timer [of Touchstart shownWithTimer 1] by blast
  moreover from e f g h
  have "hasHidden (tocContainer (step (Timeout 1) shownWithTimer))"
    and "hasHidden (backToTopButton (step (Timeout 1) shownWithTimer))"
    using auto_hide_timer [of Touchstart shownWithTimer 1] by blast+
  moreover from i j
  have "step (Timeout 1) openWithTimer =
          openWithTimer\<lparr>timers := clearTimeout 1 (timers openWithTimer)\<rparr>"
    using auto_hide_timer [of Touchstart openWithTimer 1] by blast
  then have "step (Timeout 1) openWithTimer = openWithTimer\<lparr>timers := []\<rparr>"
    by (simp only: k)
  ultimately show ?thesis
    using a b c d e f g h i j by blast
qed

text \<open>
  Claim C3. From a wiring with no timer pending, after any sequence of events at most one
  timer is pending; a scheduling leaves at most one pending and none of those that were
  pending before it; applying the hidden state leaves no timer pending and takes no new
  timer id.
\<close>

theorem single_pending_timer:
  assumes "DOMContentLoaded d w = Wired c" and "timers w = []"
  shows "length (timers (run es c)) \<le> 1 \<and>
         length (timers (scheduleAutoHide (run es c))) \<le> 1 \<and>
         set (timers (scheduleAutoHide (run es c))) \<inter> set (timers (run es c)) = {} \<and>
         timers (setScrollDirectionHidden True (run es c)) = [] \<and>
         nextTimerId (setScrollDirectionHidden True (run es c)) = nextTimerId (run es c)"
proof -
  have inv: "oneTimer (run es c)"
    using assms by (simp add: oneTimer_wired oneTimer_run)
  then have "oneTimer (scheduleAutoHide (run es c))"
    by (rule oneTimer_scheduleAutoHide)
  with inv have "length (timers (run es c)) \<le> 1"
    and "length (timers (scheduleAutoHide (run es c))) \<le> 1"
    by (simp_all add: oneTimer_def)
  moreover have "set (timers (scheduleAutoHide (run es c))) \<inter> set (timers (run es c)) = {}"
    using inv by (auto simp: scheduleAutoHide_timers oneTimer_cleared oneTimer_def list_all_iff)
  moreover have "timers (setScrollDirectionHidden True (run es c)) = []"
    using inv by (simp add: setScrollDirectionHidden_timers oneTimer_cleared)
  moreover have "nextTimerId (setScrollDirectionHidden True (run es c)) = nextTimerId (run es c)"
    by (simp add: setScrollDirectionHidden_next)
  ultimately show ?thesis by simp
qed

text \<open>The phone after a jump to 900 and a scroll back to 850: timer 1 is pending, alone.\<close>

theorem single_pending_timer_witness:
  "DOMContentLoaded fullPage phone = Wired wiredPhone \<and> timers phone = [] \<and>
   run [ScrollTo 900, Scroll, Frame, ScrollTo 850, Scroll, Frame] wiredPhone = shownWithTimer \<and>
   timers shownWithTimer = [(1, 5000)] \<and>
   length (timers shownWithTimer) \<le> 1 \<and>
   length (timers (scheduleAutoHide shownWithTimer)) \<le> 1 \<and>
   set (timers (scheduleAutoHide shownWithTimer)) \<inter> set (timers shownWithTimer) = {} \<and>
   timers (setScrollDirectionHidden True shownWithTimer) = [] \<and>
   nextTimerId (setScrollDirectionHidden True shownWithTimer) = nextTimerId shownWithTimer"
proof -
  have a: "DOMContentLoaded fullPage phone = Wired wiredPhone"
    by (rule wiredPhone_wired)
  have b: "timers phone = []"
    by (simp add: phone_def)
  have c: "run [ScrollTo 900, Scroll, Frame, ScrollTo 850, Scroll, Frame] wiredPhone =
             shownWithTimer"
    by (simp add: shownWithTimer_def hiddenPastThreshold_def)
  have d: "timers shownWithTimer = [(1, 5000)]"
    by (simp add: page_eqs)
  show ?thesis
    using single_pending_timer
            [OF a b, of "[ScrollTo 900, Scroll, Frame, ScrollTo 850, Scroll, Frame]"]
    unfolding c using a b c d by blast
qed

text \<open>
  Claim C4 as stated fails: on the phone (threshold 300) a jump down to 305 hides both panels,
  and after a scroll back up to 299 the evaluation sees a difference of six pixels and
  returns; both elements still carry the class, at a scroll position below the threshold.
\<close>

theorem below_threshold_counterexample:
  "DOMContentLoaded fullPage phone = Wired wiredPhone \<and>
   scrollY hiddenBelowThreshold < enableHideAfterPixels hiddenBelowThreshold \<and>
   enableHideAfterPixels hiddenBelowThreshold =
     max 200 \<lfloor>real_of_int (innerHeight hiddenBelowThreshold) * 0.6\<rfloor> \<and>
   hasHidden (tocContainer (step Frame hiddenBelowThreshold)) \<and>
   hasHidden (backToTopButton (step Frame hiddenBelowThreshold))"
  by (simp add: wiredPhone_wired page_eqs handler_defs hasHidden_def)

text \<open>
  Claim C4, as amended. Below the threshold, an evaluation that decides (the viewport is not
  mobile, or the scroll position is 8 pixels or more away from the baseline) leaves neither
  element with the class. The threshold is \<open>max 200 \<lfloor>innerHeight * 0.6\<rfloor>\<close>, computed at
  wiring and again by the resize handler, and changed by no other event.
\<close>

theorem below_threshold_shown:
  "(scrollY s < enableHideAfterPixels s \<and>
    (\<not> isMobileViewport s \<or> 8 \<le> \<bar>scrollY s - lastScrollY s\<bar>) \<longrightarrow>
      \<not> hasHidden (tocContainer (update s)) \<and> \<not> hasHidden (backToTopButton (update s))) \<and>
   (DOMContentLoaded d w = Wired c \<longrightarrow>
      enableHideAfterPixels c = max 200 \<lfloor>real_of_int (innerHeight w) * 0.6\<rfloor>) \<and>
   (ResizeL \<in> set (listeners s) \<longrightarrow>
      enableHideAfterPixels (step Resize s) = max 200 \<lfloor>real_of_int (innerHeight s) * 0.6\<rfloor>) \<and>
   (e \<noteq> Resize \<longrightarrow> enableHideAfterPixels (step e s) = enableHideAfterPixels s)"
proof (intro conjI impI)
  assume "scrollY s < enableHideAfterPixels s \<and>
    (\<not> isMobileViewport s \<or> 8 \<le> \<bar>scrollY s - lastScrollY s\<bar>)"
  then show "\<not> hasHidden (tocContainer (update s))" "\<not> hasHidden (backToTopButton (update s))"
    by (auto simp: update_toc update_btt hasHidden_map_toggle minDelta_def)
next
  assume "DOMContentLoaded d w = Wired c"
  then show "enableHideAfterPixels c = max 200 \<lfloor>real_of_int (innerHeight w) * 0.6\<rfloor>"
    by (auto simp: DOMContentLoaded_def Let_def update_keeps hideAfter_def browser.defs
          controller.defs split: if_splits)
next
  assume "ResizeL \<in> set (listeners s)"
  then show "enableHideAfterPixels (step Resize s) = max 200 \<lfloor>real_of_int (innerHeight s) * 0.6\<rfloor>"
    by (simp add: onResize_def update_keeps hideAfter_def)
next
  assume "e \<noteq> Resize"
  then show "enableHideAfterPixels (step e s) = enableHideAfterPixels s"
    by (cases e)
       (simp_all add: update_keeps scheduleAutoHide_keeps onScroll_def onToggle_def Let_def
          clearAutoHideTimer_keeps setScrollDirectionHidden_keeps autoHideCallback_def
          split: option.splits)
qed

text \<open>The hidden phone scrolled up to 291, fourteen pixels above the baseline 305; and a
  resize to a height of 1000, which moves the threshold from 300 to 600.\<close>

theorem below_threshold_shown_witness:
  "scrollY (step (ScrollTo 291) hiddenBelowThreshold) <
     enableHideAfterPixels (step (ScrollTo 291) hiddenBelowThreshold) \<and>
   8 \<le> \<bar>scrollY (step (ScrollTo 291) hiddenBelowThreshold) -
          lastScrollY (step (ScrollTo 291) hiddenBelowThreshold)\<bar> \<and>
   hasHidden (tocContainer (step (ScrollTo 291) hiddenBelowThreshold)) \<and>
   \<not> hasHidden (tocContainer (update (step (ScrollTo 291) hiddenBelowThreshold))) \<and>
   \<not> hasHidden (backToTopButton (update (step (ScrollTo 291) hiddenBelowThreshold))) \<and>
   DOMContentLoaded fullPage phone = Wired wiredPhone \<and>
   enableHideAfterPixels wiredPhone = 300 \<and>
   ResizeL \<in> set (listeners (step (Viewport 500 1000) wiredPhone)) \<and>
   enableHideAfterPixels (step Resize (step (Viewport 500 1000) wiredPhone)) = 600 \<and>
   enableHideAfterPixels (step (Viewport 500 1000) wiredPhone) = 300"
proof -
  let ?s = "step (ScrollTo 291) hiddenBelowThreshold"
  let ?v = "step (Viewport 500 1000) wiredPhone"
  have a: "scrollY ?s < enableHideAfterPixels ?s"
    and b: "8 \<le> \<bar>scrollY ?s - lastScrollY ?s\<bar>"
    and c: "hasHidden (tocContainer ?s)"
    and d: "ResizeL \<in> set (listeners ?v)"
    and e: "innerHeight phone = 500"
    and f: "innerHeight ?v = 1000"
    and g: "enableHideAfterPixels wiredPhone = 300"
    and h: "Viewport 500 1000 \<noteq> Resize"
    by (simp_all add: page_eqs phone_def hasHidden_def className_def)
  from a b have "\<not> hasHidden (tocContainer (update ?s))"
    and "\<not> hasHidden (backToTopButton (update ?s))"
    using below_threshold_shown [of ?s fullPage phone wiredPhone Resize] by blast+
  moreover from d f
  have "enableHideAfterPixels (step Resize ?v) = 600"
    using below_threshold_shown [of ?v fullPage phone wiredPhone Resize] by simp
  moreover from h g have "enableHideAfterPixels ?v = 300"
    using below_threshold_shown [of wiredPhone fullPage phone wiredPhone "Viewport 500 1000"]
    by simp
  ultimately show ?thesis
    using a b c d g wiredPhone_wired by blast
qed

text \<open>
  Claim C5 as stated fails: on the desktop window, after a scroll of three pixels, the
  evaluation moves the baseline from 0 to 3.
\<close>

theorem jitter_counterexample:
  "DOMContentLoaded fullPage desktop = Wired wiredDesktop \<and>
   \<bar>scrollY desktopJitter - lastScrollY desktopJitter\<bar> < 8 \<and>
   lastScrollY (step Frame desktopJitter) \<noteq> lastScrollY desktopJitter"
  by (simp add: wiredDesktop_wired page_eqs handler_defs)

text \<open>
  Claim C5, as amended. On a mobile viewport, an evaluation with the scroll position less than
  8 pixels away from the baseline changes neither class list, nor the baseline, nor the
  pending timers.
\<close>

theorem jitter_no_decision:
  assumes "isMobileViewport s" and "\<bar>scrollY s - lastScrollY s\<bar> < 8"
  shows "tocContainer (update s) = tocContainer s \<and>
         backToTopButton (update s) = backToTopButton s \<and>
         lastScrollY (update s) = lastScrollY s \<and>
         timers (update s) = timers s \<and>
         autoHideTimeoutId (update s) = autoHideTimeoutId s"
  using assms by (simp add: update_jitter minDelta_def)

text \<open>The hidden phone at 299 with the baseline 305.\<close>

theorem jitter_no_decision_witness:
  "isMobileViewport hiddenBelowThreshold \<and>
   \<bar>scrollY hiddenBelowThreshold - lastScrollY hiddenBelowThreshold\<bar> < 8 \<and>
   tocContainer (update hiddenBelowThreshold) = tocContainer hiddenBelowThreshold \<and>
   backToTopButton (update hiddenBelowThreshold) = backToTopButton hiddenBelowThreshold \<and>
   lastScrollY (update hiddenBelowThreshold) = 305 \<and>
   scrollY hiddenBelowThreshold = 299"
proof -
  have a: "isMobileViewport hiddenBelowThreshold"
    and b: "\<bar>scrollY hiddenBelowThreshold - lastScrollY hiddenBelowThreshold\<bar> < 8"
    and c: "lastScrollY hiddenBelowThreshold = 305"
    and d: "scrollY hiddenBelowThreshold = 299"
    by (simp_all add: page_eqs isMobileViewport_def)
  show ?thesis
    using jitter_no_decision [OF a b] a b c d by simp
qed

text \<open>
  Claim C6. When the viewport is not classified mobile, the evaluation leaves neither element
  with the class and records the scroll position as the baseline; and no event starts a
  timer: the next timer id stays, and every timer pending after the event was pending before.
\<close>

theorem desktop_always_shown:
  assumes "\<not> isMobileViewport s"
  shows "\<not> hasHidden (tocContainer (update s)) \<and>
         \<not> hasHidden (backToTopButton (update s)) \<and>
         lastScrollY (update s) = scrollY s \<and>
         nextTimerId (step e s) = nextTimerId s \<and>
         set (timers (step e s)) \<subseteq> set (timers s)"
proof -
  have quiet: "nextTimerId (step e s) = nextTimerId s \<and> set (timers (step e s)) \<subseteq> set (timers s)"
  proof (cases "isMobileViewport (step e s) = isMobileViewport s")
    case True
    with assms have no: "\<not> autoHideAllowed (step e s)"
      by (simp add: autoHideAllowed_def)
    then have "nextTimerId (step e s) = nextTimerId s"
      using step_next [of e s] by blast
    moreover have "set (timers (step e s)) \<subseteq> set (timers s)"
      using no step_timers [of _ e s] by blast
    ultimately show ?thesis by simp
  next
    case False
    then show ?thesis using step_mobile [of e s] by simp
  qed
  then show ?thesis
    using assms by (simp add: update_toc update_btt update_last hasHidden_map_toggle)
qed

text \<open>The desktop window, 1200 pixels wide, scrolled by three pixels.\<close>

theorem desktop_always_shown_witness:
  "\<not> isMobileViewport desktopJitter \<and> viewportWidth desktopJitter = 1200 \<and>
   \<not> hasHidden (tocContainer (update desktopJitter)) \<and>
   \<not> hasHidden (backToTopButton (update desktopJitter)) \<and>
   lastScrollY (update desktopJitter) = 3 \<and>
   nextTimerId (step Touchstart desktopJitter) = nextTimerId desktopJitter \<and>
   set (timers (step Touchstart desktopJitter)) \<subseteq> set (timers desktopJitter)"
proof -
  have a: "\<not> isMobileViewport desktopJitter"
    and b: "viewportWidth desktopJitter = 1200"
    and c: "scrollY desktopJitter = 3"
    by (simp_all add: page_eqs isMobileViewport_def)
  show ?thesis
    using desktop_always_shown [OF a, of Touchstart] a b c by simp
qed

text \<open>
  Claim C7 as stated fails for the timer: on the phone at 850, past the threshold, timer 1 is
  pending when the disclosure is expanded; when the timer fires before the toggle event is
  delivered, its callback returns at the test of the disclosure and the button does not
  receive the class.
\<close>

theorem exemption_counterexample:
  "DOMContentLoaded fullPage phone = Wired wiredPhone \<and>
   detailsOpen openWithTimer \<and> isMobileViewport openWithTimer \<and>
   enableHideAfterPixels openWithTimer \<le> scrollY openWithTimer \<and>
   timers openWithTimer = [(1, 5000)] \<and>
   \<not> hasHidden (backToTopButton (step (Timeout 1) openWithTimer))"
  by (simp add: wiredPhone_wired page_eqs handler_defs hasHidden_def)

text \<open>
  Claim C7, as amended. With the disclosure expanded on a mobile viewport at or past the
  threshold, a scroll down of 8 pixels or more, and any application of the hidden state,
  puts the class on the button and not on the container. The timer is no such decision: when
  it fires with the disclosure expanded, it leaves the list of pending timers and nothing
  else changes.
\<close>

theorem exemption_toc_only:
  assumes "detailsOpen s" and "isMobileViewport s" and "enableHideAfterPixels s \<le> scrollY s"
  shows "(8 \<le> scrollY s - lastScrollY s \<longrightarrow>
            \<not> hasHidden (tocContainer (update s)) \<and>
            (backToTopButton s \<noteq> None \<longrightarrow> hasHidden (backToTopButton (update s)))) \<and>
         \<not> hasHidden (tocContainer (setScrollDirectionHidden True s)) \<and>
         (backToTopButton s \<noteq> None \<longrightarrow>
            hasHidden (backToTopButton (setScrollDirectionHidden True s))) \<and>
         (t \<in> fst ` set (timers s) \<longrightarrow>
            step (Timeout t) s = s\<lparr>timers := clearTimeout t (timers s)\<rparr>)"
  using assms
  by (auto simp: update_toc update_btt setScrollDirectionHidden_toc setScrollDirectionHidden_btt
        hasHidden_map_toggle minDelta_def autoHideCallback_def detailsOpen_def)

text \<open>The phone with the disclosure expanded, scrolled down from 850 to 950.\<close>

theorem exemption_toc_only_witness:
  "detailsOpen openScrollingDown \<and> isMobileViewport openScrollingDown \<and>
   enableHideAfterPixels openScrollingDown \<le> scrollY openScrollingDown \<and>
   8 \<le> scrollY openScrollingDown - lastScrollY openScrollingDown \<and>
   backToTopButton openScrollingDown \<noteq> None \<and>
   \<not> hasHidden (tocContainer (update openScrollingDown)) \<and>
   hasHidden (backToTopButton (update openScrollingDown)) \<and>
   \<not> hasHidden (tocContainer (setScrollDirectionHidden True openScrollingDown)) \<and>
   hasHidden (backToTopButton (setScrollDirectionHidden True openScrollingDown))"
proof -
  have a: "detailsOpen openScrollingDown"
    and b: "isMobileViewport openScrollingDown"
    and c: "enableHideAfterPixels openScrollingDown \<le> scrollY openScrollingDown"
    and d: "8 \<le> scrollY openScrollingDown - lastScrollY openScrollingDown"
    and e: "backToTopButton openScrollingDown \<noteq> None"
    by (simp_all add: page_eqs isMobileViewport_def detailsOpen_def)
  show ?thesis
    using exemption_toc_only [OF a b c, of 1] a b c d e by blast
qed

text \<open>
  Claim C8. A second evaluation right after the first, with nothing changed in between, leaves
  both class lists as the first evaluation left them; it leaves the whole state so, timers
  and baseline too.
\<close>

theorem update_idempotent:
  "tocContainer (update (update s)) = tocContainer (update s) \<and>
   backToTopButton (update (update s)) = backToTopButton (update s) \<and>
   update (update s) = update s"
proof -
  have "update (update s) = update s"
    by (cases "isMobileViewport s") (simp_all add: update_twice_mobile update_twice_desktop)
  then show ?thesis
    by simp
qed

text \<open>
  Claim C9. With neither element in the document, the handler returns and the browser is as
  it was: no listener, no timer, no animation frame. With one element at least, the
  controller is wired, holds each element that exists and listens to scroll, touchstart,
  click and resize. A missing element stays missing through every event, and the class of
  the other one is still set as decided. The handler and the functions it registers have no
  failing branch: every use of an element is under its null test, which is the case
  distinction of the embedding.
\<close>

theorem missing_elements:
  "(toc_container d = None \<and> back_to_top d = None \<longrightarrow> DOMContentLoaded d w = NotWired w) \<and>
   (toc_container d \<noteq> None \<or> back_to_top d \<noteq> None \<longrightarrow> (\<exists>c. DOMContentLoaded d w = Wired c)) \<and>
   (DOMContentLoaded d w = Wired c \<longrightarrow>
      (tocContainer c = None \<longleftrightarrow> toc_container d = None) \<and>
      (backToTopButton c = None \<longleftrightarrow> back_to_top d = None) \<and>
      {ScrollL, TouchstartL, ClickL, ResizeL} \<subseteq> set (listeners c)) \<and>
   (tocContainer s = None \<longrightarrow>
      tocContainer (step e s) = None \<and>
      (hasHidden (backToTopButton (setScrollDirectionHidden b s)) \<longleftrightarrow>
         b \<and> backToTopButton s \<noteq> None)) \<and>
   (backToTopButton s = None \<longrightarrow>
      backToTopButton (step e s) = None \<and>
      (hasHidden (tocContainer (setScrollDirectionHidden b s)) \<longleftrightarrow>
         b \<and> \<not> detailsOpen s \<and> tocContainer s \<noteq> None))"
proof (intro conjI impI)
  assume "toc_container d = None \<and> back_to_top d = None"
  then show "DOMContentLoaded d w = NotWired w"
    by (simp add: DOMContentLoaded_def)
next
  assume "toc_container d \<noteq> None \<or> back_to_top d \<noteq> None"
  then show "\<exists>c. DOMContentLoaded d w = Wired c"
    by (auto simp: DOMContentLoaded_def Let_def)
next
  assume w: "DOMContentLoaded d w = Wired c"
  then show "(tocContainer c = None) = (toc_container d = None)"
    by (auto simp: DOMContentLoaded_def Let_def update_toc browser.defs controller.defs
          split: if_splits)
  from w show "(backToTopButton c = None) = (back_to_top d = None)"
    by (auto simp: DOMContentLoaded_def Let_def update_btt browser.defs controller.defs
          split: if_splits)
  from w show "{ScrollL, TouchstartL, ClickL, ResizeL} \<subseteq> set (listeners c)"
    by (auto simp: DOMContentLoaded_def Let_def update_keeps split: if_splits)
next
  assume "tocContainer s = None"
  then show "tocContainer (step e s) = None"
    by (simp add: step_toc_None)
next
  assume "tocContainer s = None"
  show "hasHidden (backToTopButton (setScrollDirectionHidden b s)) \<longleftrightarrow>
          b \<and> backToTopButton s \<noteq> None"
    by (simp add: setScrollDirectionHidden_btt hasHidden_map_toggle)
next
  assume "backToTopButton s = None"
  then show "backToTopButton (step e s) = None"
    by (simp add: step_btt_None)
next
  assume "backToTopButton s = None"
  show "hasHidden (tocContainer (setScrollDirectionHidden b s)) \<longleftrightarrow>
          b \<and> \<not> detailsOpen s \<and> tocContainer s \<noteq> None"
    by (auto simp: setScrollDirectionHidden_toc hasHidden_map_toggle)
qed

text \<open>The empty page, and the page that has only the button.\<close>

theorem missing_elements_witness:
  "toc_container emptyPage = None \<and> back_to_top emptyPage = None \<and>
   DOMContentLoaded emptyPage phone = NotWired phone \<and>
   listeners phone = [] \<and> timers phone = [] \<and> frameCallbacks phone = 0 \<and>
   toc_container buttonOnly = None \<and> back_to_top buttonOnly \<noteq> None \<and>
   DOMContentLoaded buttonOnly phone = Wired wiredButton \<and>
   tocContainer wiredButton = None \<and> backToTopButton wiredButton \<noteq> None \<and>
   ScrollL \<in> set (listeners wiredButton) \<and>
   tocContainer (step Frame wiredButton) = None \<and>
   hasHidden (backToTopButton (setScrollDirectionHidden True wiredButton))"
proof -
  have a: "toc_container emptyPage = None" "back_to_top emptyPage = None"
    and b: "listeners phone = []" "timers phone = []" "frameCallbacks phone = 0"
    and d: "toc_container buttonOnly = None" "back_to_top buttonOnly \<noteq> None"
    by (simp_all add: emptyPage_def buttonOnly_def phone_def)
  have w: "DOMContentLoaded buttonOnly phone = Wired wiredButton"
    by (rule wiredButton_wired)
  from a have e: "DOMContentLoaded emptyPage phone = NotWired phone"
    using missing_elements [of emptyPage phone] by simp
  from w d have f: "tocContainer wiredButton = None" "backToTopButton wiredButton \<noteq> None"
    and g: "ScrollL \<in> set (listeners wiredButton)"
    using missing_elements [of buttonOnly phone wiredButton] by simp_all
  from f have "tocContainer (step Frame wiredButton) = None"
    and "hasHidden (backToTopButton (setScrollDirectionHidden True wiredButton))"
    using missing_elements [of buttonOnly phone wiredButton wiredButton Frame True]
    by simp_all
  with a b d e f g w show ?thesis
    by simp
qed

text \<open>
  Claim C10. A touchstart or a click on a mobile viewport, at or past the threshold, with the
  disclosure not expanded, starts a new timer of 5000 ms and leaves both class lists as they
  are, so also when both elements carry the class; and when that timer fires, an element
  that carried the class has the class list it had.
\<close>

theorem touch_schedules_while_hidden:
  assumes "e = Touchstart \<or> e = Click"
    and "TouchstartL \<in> set (listeners s)" and "ClickL \<in> set (listeners s)"
    and "autoHideAllowed s"
  shows "(nextTimerId s, 5000) \<in> set (timers (step e s)) \<and>
         autoHideTimeoutId (step e s) = Some (nextTimerId s) \<and>
         nextTimerId (step e s) = Suc (nextTimerId s) \<and>
         tocContainer (step e s) = tocContainer s \<and>
         backToTopButton (step e s) = backToTopButton s \<and>
         (hasHidden (tocContainer s) \<longrightarrow>
            tocContainer (run [e, Timeout (nextTimerId s)] s) = tocContainer s) \<and>
         (hasHidden (backToTopButton s) \<longrightarrow>
            backToTopButton (run [e, Timeout (nextTimerId s)] s) = backToTopButton s)"
proof -
  have e: "step e s = scheduleAutoHide s"
    using assms(1-3) by auto
  have closed: "\<not> detailsOpen s"
    using assms(4) by (simp add: autoHideAllowed_def)
  have fired: "run [e, Timeout (nextTimerId s)] s =
           setScrollDirectionHidden True
             ((scheduleAutoHide s)\<lparr>timers :=
                clearTimeout (nextTimerId s) (timers (scheduleAutoHide s))\<rparr>)"
    using fire_scheduled [OF assms(4)] e by simp
  have toc: "tocContainer (run [e, Timeout (nextTimerId s)] s) =
               map_option (toggle className True) (tocContainer s)"
    unfolding fired using closed
    by (simp add: setScrollDirectionHidden_toc scheduleAutoHide_keeps detailsOpen_def)
  have btt: "backToTopButton (run [e, Timeout (nextTimerId s)] s) =
               map_option (toggle className True) (backToTopButton s)"
    unfolding fired
    by (simp add: setScrollDirectionHidden_btt scheduleAutoHide_keeps)
  have "(nextTimerId s, 5000) \<in> set (timers (step e s))"
    and "autoHideTimeoutId (step e s) = Some (nextTimerId s)"
    and "nextTimerId (step e s) = Suc (nextTimerId s)"
    and "tocContainer (step e s) = tocContainer s"
    and "backToTopButton (step e s) = backToTopButton s"
    using assms(4)
    by (simp_all add: e scheduleAutoHide_timers scheduleAutoHide_id scheduleAutoHide_next
          scheduleAutoHide_keeps)
  then show ?thesis
    by (simp add: toc btt map_toggle_hidden del: run.simps)
qed

text \<open>The phone with both panels hidden at 900: a touch starts timer 1 while both
  elements carry the class.\<close>

theorem touch_schedules_while_hidden_witness:
  "TouchstartL \<in> set (listeners hiddenPastThreshold) \<and>
   ClickL \<in> set (listeners hiddenPastThreshold) \<and>
   autoHideAllowed hiddenPastThreshold \<and>
   hasHidden (tocContainer hiddenPastThreshold) \<and>
   hasHidden (backToTopButton hiddenPastThreshold) \<and>
   nextTimerId hiddenPastThreshold = 1 \<and>
   (1, 5000) \<in> set (timers (step Touchstart hiddenPastThreshold)) \<and>
   hasHidden (tocContainer (step Touchstart hiddenPastThreshold)) \<and>
   hasHidden (backToTopButton (step Touchstart hiddenPastThreshold)) \<and>
   tocContainer (run [Touchstart, Timeout 1] hiddenPastThreshold) =
     tocContainer hiddenPastThreshold \<and>
   backToTopButton (run [Click, Timeout 1] hiddenPastThreshold) =
     backToTopButton hiddenPastThreshold"
proof -
  have a: "TouchstartL \<in> set (listeners hiddenPastThreshold)"
    and b: "ClickL \<in> set (listeners hiddenPastThreshold)"
    and c: "autoHideAllowed hiddenPastThreshold"
    and d: "hasHidden (tocContainer hiddenPastThreshold)"
    and e: "hasHidden (backToTopButton hiddenPastThreshold)"
    and f: "nextTimerId hiddenPastThreshold = 1"
    by (simp_all add: page_eqs autoHideAllowed_def isMobileViewport_def detailsOpen_def
          hasHidden_def)
  have t: "Touchstart = Touchstart \<or> Touchstart = Click"
    and k: "Click = Touchstart \<or> Click = Click"
    by simp_all
  show ?thesis
    using touch_schedules_while_hidden [OF t a b c] touch_schedules_while_hidden [OF k a b c]
      a b c d e
    unfolding f by metis
qed

end
